theory Spec2Isabelle
  imports Complex_Main "HOL-Library.Log_Nat"
begin

section \<open>Values of the JavaScript run time\<close>

text \<open>
  A JavaScript \<open>number\<close> is a binary64 value. A finite one is held by the rational it
  denotes (the two zeros are not told apart: no operation used by the module separates
  them); the three special values have constructors of their own.
\<close>

datatype number = Fin rat | PosInf | NegInf | NaN

text \<open>
  What \<open>response.json()\<close> resolves with: a value parsed from JSON text. An object is held
  by its own properties, each key once, as \<open>JSON.parse\<close> leaves them.
\<close>

datatype json_value =
    JNull
  | JBool bool
  | JNum number
  | JStr string
  | JArr "json_value list"
  | JObj "(string \<times> json_value) list"

text \<open>
  What a \<open>throw\<close> or a rejected promise carries. Every value thrown in the module or by
  the platform calls it makes is an object: an \<open>Error\<close> instance (its \<open>name\<close> and
  \<open>message\<close>), the object literal \<open>{status, detail}\<close> that \<open>predictFromBase64\<close> builds,
  or some other object of the platform (a DOM event, say), held by the text that
  \<open>String\<close> gives for it.
\<close>

datatype thrown =
    ErrorObj string string
  | ApiErrorObj nat json_value
  | OtherObj string

text \<open>\<open>`${error}`\<close>: \<open>Error.prototype.toString\<close> for an \<open>Error\<close>, \<open>Object.prototype.toString\<close>
  for the object literal.\<close>

fun toString :: "thrown \<Rightarrow> string" where
  "toString (ErrorObj name message) =
     (if name = [] then message else if message = [] then name else name @ '': '' @ message)"
| "toString (ApiErrorObj status detail) = ''[object Object]''"
| "toString (OtherObj s) = s"

text \<open>\<open>ToBoolean\<close> of a parsed value, or of \<open>undefined\<close> (\<open>None\<close>).\<close>

fun truthy :: "json_value option \<Rightarrow> bool" where
  "truthy None = False"
| "truthy (Some JNull) = False"
| "truthy (Some (JBool b)) = b"
| "truthy (Some (JNum n)) = (n \<noteq> Fin 0 \<and> n \<noteq> NaN)"
| "truthy (Some (JStr s)) = (s \<noteq> [])"
| "truthy (Some (JArr xs)) = True"
| "truthy (Some (JObj kvs)) = True"

text \<open>
  \<open>v.key\<close> for a key that no built-in prototype defines (\<open>detail\<close>, \<open>prediction\<close>):
  a \<open>TypeError\<close> on \<open>null\<close> (the wording of the message is the engine's), the own
  property of an object, \<open>undefined\<close> otherwise.
\<close>

fun getprop :: "json_value \<Rightarrow> string \<Rightarrow> thrown + json_value option" where
  "getprop JNull key =
     Inl (ErrorObj ''TypeError''
       (''Cannot read properties of null (reading '' @ [CHR 0x27] @ key @ [CHR 0x27] @ '')''))"
| "getprop (JObj kvs) key = Inr (map_of kvs key)"
| "getprop v key = Inr None"

text \<open>\<open>a || b\<close> where \<open>a\<close> is a property that may be \<open>undefined\<close>.\<close>

definition or_else :: "json_value option \<Rightarrow> json_value \<Rightarrow> json_value" where
  "or_else a b = (case a of Some v \<Rightarrow> (if truthy a then v else b) | None \<Rightarrow> b)"

text \<open>\<open>s.split(c)\<close> for a one-character separator, and \<open>xs[i]\<close> (\<open>undefined\<close> out of range).\<close>

fun split_on :: "char \<Rightarrow> string \<Rightarrow> string list" where
  "split_on c [] = [[]]"
| "split_on c (x # xs) =
     (if x = c then [] # split_on c xs
      else (case split_on c xs of p # ps \<Rightarrow> (x # p) # ps | [] \<Rightarrow> [[x]]))"

definition index :: "'a list \<Rightarrow> nat \<Rightarrow> 'a option" where
  "index xs i = (if i < length xs then Some (xs ! i) else None)"

definition startsWith :: "string \<Rightarrow> string \<Rightarrow> bool" where
  "startsWith s p = (take (length p) s = p)"

section \<open>The platform\<close>

text \<open>
  A \<open>Response\<close> of the Fetch API, as far as the module reads it: its status and what
  \<open>response.json()\<close> settles with. \<open>response.ok\<close> is the Fetch standard's: the status is
  in the range 200 to 299.
\<close>

record response =
  status :: nat
  json :: "thrown + json_value"

definition ok :: "response \<Rightarrow> bool" where
  "ok r = (200 \<le> status r \<and> status r \<le> 299)"

text \<open>What is fixed when the module is loaded: \<open>Platform.OS\<close> and the environment.\<close>

record platform =
  OS :: string
  EXPO_PUBLIC_API_URL :: "string option"

text \<open>
  How the browser answers the steps of \<open>imageUriToBase64Web\<close>: \<open>fetch(imageUri)\<close> rejects,
  or \<open>response.blob()\<close> rejects, or the \<open>FileReader\<close> fails (\<open>onerror\<close>, with the event), or
  it loads and \<open>reader.result\<close> is the data URL.
\<close>

datatype web_read =
    FetchRejects thrown
  | BlobRejects thrown
  | ReaderFails thrown
  | ReaderLoads string

text \<open>
  How the platform answers during one call of \<open>predictFromBase64\<close>: the native file read,
  the browser's read, and the POST. An answer is consulted only if the call gets that far.
\<close>

record exchange =
  readAsStringAsync :: "thrown + string"
  readWeb :: web_read
  fetchPredict :: "thrown + response"

text \<open>
  What a run does to the outside, in order. The console events keep the values that the
  source interpolates into its fixed texts.
\<close>

datatype event =
    ReadFile string
  | FetchImage string
  | FetchPost string json_value
  | FetchGet string
  | ConsoleErrorPredicao thrown
  | ConsoleWarnIndisponivel thrown
  | ConsoleLogTentativa int int
  | ConsoleLogConcluida "json_value option"
  | ConsoleWarnFalhou int thrown
  | ConsoleLogAguardando int
  | SetTimeout int

section \<open>The service module\<close>

definition API_BASE_URL :: "platform \<Rightarrow> string" where
  "API_BASE_URL pf =
     (case EXPO_PUBLIC_API_URL pf of
        Some url \<Rightarrow> (if url \<noteq> [] then url else ''https://eyessistant2-backend.onrender.com'')
      | None \<Rightarrow> ''https://eyessistant2-backend.onrender.com'')"

text \<open>
  \<open>imageUriToBase64Web\<close>. Both branches of the test on the URI do the same. The promise
  around the \<open>FileReader\<close> is returned without \<open>await\<close>, so its rejection leaves the
  function as it is, past the \<open>catch\<close>; the two awaited steps are caught and wrapped.
\<close>

definition imageUriToBase64Web ::
  "exchange \<Rightarrow> string \<Rightarrow> event list \<Rightarrow> (thrown + string option) \<times> event list" where
  "imageUriToBase64Web x imageUri tr =
     (let catch = (\<lambda>error. Inl (ErrorObj ''Error''
            (''Erro ao converter imagem web para base64: '' @ toString error)));
          fetch_and_read =
            (case readWeb x of
               FetchRejects error \<Rightarrow> catch error
             | BlobRejects error \<Rightarrow> catch error
             | ReaderFails ev \<Rightarrow> Inl ev
             | ReaderLoads result \<Rightarrow> Inr (index (split_on (CHR '','') result) 1))
      in if startsWith imageUri ''blob:'' \<or> startsWith imageUri ''data:''
         then (fetch_and_read, tr @ [FetchImage imageUri])
         else (fetch_and_read, tr @ [FetchImage imageUri]))"

definition imageUriToBase64 ::
  "platform \<Rightarrow> exchange \<Rightarrow> string \<Rightarrow> event list \<Rightarrow> (thrown + string option) \<times> event list" where
  "imageUriToBase64 pf x imageUri tr =
     (let catch = (\<lambda>error. Inl (ErrorObj ''Error''
            (''Erro ao converter imagem para base64: '' @ toString error)))
      in if OS pf = ''web''
         then (case imageUriToBase64Web x imageUri tr of
                 (Inl error, tr') \<Rightarrow> (catch error, tr')
               | (Inr base64, tr') \<Rightarrow> (Inr base64, tr'))
         else (case readAsStringAsync x of
                 Inl error \<Rightarrow> (catch error, tr @ [ReadFile imageUri])
               | Inr base64 \<Rightarrow> (Inr (Some base64), tr @ [ReadFile imageUri])))"

text \<open>\<open>JSON.stringify({image: base64Image})\<close> leaves an \<open>undefined\<close> property out.\<close>

definition request_body :: "string option \<Rightarrow> json_value" where
  "request_body base64Image =
     JObj (case base64Image of Some s \<Rightarrow> [(''image'', JStr s)] | None \<Rightarrow> [])"

text \<open>The \<open>try\<close> block of \<open>predictFromBase64\<close>.\<close>

definition predict_try ::
  "platform \<Rightarrow> exchange \<Rightarrow> string \<Rightarrow> event list \<Rightarrow> (thrown + json_value) \<times> event list" where
  "predict_try pf x imageUri tr =
     (case imageUriToBase64 pf x imageUri tr of
        (Inl error, tr1) \<Rightarrow> (Inl error, tr1)
      | (Inr base64Image, tr1) \<Rightarrow>
          (let tr2 = tr1 @ [FetchPost (API_BASE_URL pf @ ''/predict-base64'')
                                (request_body base64Image)]
           in case fetchPredict x of
                Inl error \<Rightarrow> (Inl error, tr2)
              | Inr response \<Rightarrow>
                  if \<not> ok response
                  then (case json response of
                          Inl parse_error \<Rightarrow> (Inl parse_error, tr2)
                        | Inr error \<Rightarrow>
                            (case getprop error ''detail'' of
                               Inl type_error \<Rightarrow> (Inl type_error, tr2)
                             | Inr detail \<Rightarrow>
                                 (Inl (ApiErrorObj (status response)
                                    (or_else detail (JStr ''Erro desconhecido na API''))), tr2)))
                  else (case json response of
                          Inl parse_error \<Rightarrow> (Inl parse_error, tr2)
                        | Inr result \<Rightarrow> (Inr result, tr2))))"

definition predictFromBase64 ::
  "platform \<Rightarrow> exchange \<Rightarrow> string \<Rightarrow> event list \<Rightarrow> (thrown + json_value) \<times> event list" where
  "predictFromBase64 pf x imageUri tr =
     (case predict_try pf x imageUri tr of
        (Inl error, tr') \<Rightarrow> (Inl error, tr' @ [ConsoleErrorPredicao error])
      | (Inr result, tr') \<Rightarrow> (Inr result, tr'))"

text \<open>\<open>checkApiHealth\<close>; \<open>get\<close> is how the platform answers the GET.\<close>

definition checkApiHealth ::
  "platform \<Rightarrow> thrown + response \<Rightarrow> event list \<Rightarrow> (thrown + bool) \<times> event list" where
  "checkApiHealth pf get tr =
     (let tr1 = tr @ [FetchGet (API_BASE_URL pf @ ''/health'')]
      in case get of
           Inr response \<Rightarrow> (Inr (ok response), tr1)
         | Inl error \<Rightarrow> (Inr False, tr1 @ [ConsoleWarnIndisponivel error]))"





section \<open>Numbers and their formatting\<close>

text \<open>
  Rounding a rational to binary64, to nearest, ties to even: 53 significant bits, the
  least exponent that of the subnormals, overflow to an infinity.
\<close>

definition ilog2 :: "rat \<Rightarrow> int" where
  "ilog2 a =
     (let (n, d) = quotient_of a; k = bitlen n - bitlen d
      in if 2 powi k \<le> a then k else k - 1)"

definition round_half_even :: "rat \<Rightarrow> int" where
  "round_half_even r =
     (let f = \<lfloor>r\<rfloor>; d = r - of_int f
      in if d < 1 / 2 then f else if 1 / 2 < d then f + 1 else if even f then f else f + 1)"

definition round64 :: "rat \<Rightarrow> number" where
  "round64 q =
     (if q = 0 then Fin 0
      else (let a = \<bar>q\<bar>;
                e = max (ilog2 a - 52) (- 1074);
                r = of_int (round_half_even (a / 2 powi e)) * 2 powi e
            in if 2 powi 1024 \<le> r then (if q < 0 then NegInf else PosInf)
               else Fin (if q < 0 then - r else r)))"

text \<open>The operator \<open>*\<close> on numbers.\<close>

fun times_number :: "number \<Rightarrow> number \<Rightarrow> number" where
  "times_number NaN y = NaN"
| "times_number x NaN = NaN"
| "times_number (Fin a) (Fin b) = round64 (a * b)"
| "times_number (Fin a) PosInf = (if a = 0 then NaN else if 0 < a then PosInf else NegInf)"
| "times_number (Fin a) NegInf = (if a = 0 then NaN else if 0 < a then NegInf else PosInf)"
| "times_number PosInf (Fin b) = (if b = 0 then NaN else if 0 < b then PosInf else NegInf)"
| "times_number NegInf (Fin b) = (if b = 0 then NaN else if 0 < b then NegInf else PosInf)"
| "times_number PosInf PosInf = PosInf"
| "times_number PosInf NegInf = NegInf"
| "times_number NegInf PosInf = NegInf"
| "times_number NegInf NegInf = PosInf"

text \<open>The decimal digits of a natural number.\<close>

fun digits :: "nat \<Rightarrow> string" where
  "digits n =
     (if n < 10 then [''0123456789'' ! n]
      else digits (n div 10) @ [''0123456789'' ! (n mod 10)])"

text \<open>
  \<open>Number.prototype.toFixed\<close> as ECMAScript defines it, for a fraction digit count in
  its range. A value of magnitude \<open>10^21\<close> or more is given to \<open>Number::toString\<close>, which
  is the platform's and is taken as the parameter \<open>big\<close>. Below that, \<open>n\<close> is the integer
  nearest to the value times \<open>10^f\<close>, the larger of two equally near.
\<close>

definition toFixed :: "(rat \<Rightarrow> string) \<Rightarrow> number \<Rightarrow> nat \<Rightarrow> string" where
  "toFixed big x f =
     (case x of
        NaN \<Rightarrow> ''NaN''
      | PosInf \<Rightarrow> ''Infinity''
      | NegInf \<Rightarrow> ''-Infinity''
      | Fin q \<Rightarrow>
          (let s = (if q < 0 then ''-'' else []);
               a = \<bar>q\<bar>
           in if 10 ^ 21 \<le> a then s @ big a
              else (let n = nat \<lfloor>a * 10 ^ f + 1 / 2\<rfloor>;
                        m = digits n;
                        m = (if f \<noteq> 0 \<and> length m \<le> f
                             then replicate (f + 1 - length m) (CHR ''0'') @ m else m);
                        k = length m
                    in if f \<noteq> 0 then s @ take (k - f) m @ ''.'' @ drop (k - f) m
                       else s @ m)))"

section \<open>The presentation helpers\<close>

text \<open>The interface \<open>PredictionResult\<close>; \<open>prediction\<close> is a string at run time.\<close>

record PredictionResult =
  prediction :: string
  confidence :: number
  class_index :: number
  message :: string

definition getPredictionMessage :: "(rat \<Rightarrow> string) \<Rightarrow> PredictionResult \<Rightarrow> string" where
  "getPredictionMessage big p =
     (let conf = toFixed big (times_number (confidence p) (Fin 100)) 1
      in if prediction p = ''normal''
         then [CHR 0xE2, CHR 0x9C, CHR 0x85] @ '' Nenhum sinal de catarata detectado''
              @ [CHR 0x0A] @ conf @ ''% de confian'' @ [CHR 0xC3, CHR 0xA7] @ ''a''
         else [CHR 0xE2, CHR 0x9A, CHR 0xA0, CHR 0xEF, CHR 0xB8, CHR 0x8F] @ '' Poss''
              @ [CHR 0xC3, CHR 0xAD] @ ''vel sinal de catarata detectado'' @ [CHR 0x0A]
              @ ''Confid'' @ [CHR 0xC3, CHR 0xAA] @ ''ncia: '' @ conf @ ''%'')"

definition getRecommendation :: "PredictionResult \<Rightarrow> (string \<Rightarrow> string) option \<Rightarrow> string" where
  "getRecommendation p t =
     (case t of
        Some t \<Rightarrow>
          (if prediction p = ''normal'' then t ''analise_recomendacao_normal''
           else t ''analise_recomendacao_urgente'')
      | None \<Rightarrow>
          (if prediction p = ''normal''
           then ''Continue monitorando regularmente seus olhos com exames peri''
                @ [CHR 0xC3, CHR 0xB3] @ ''dicos.''
           else ''Recomendamos que voc'' @ [CHR 0xC3, CHR 0xAA]
                @ '' consulte um oftalmologista para uma avalia'' @ [CHR 0xC3, CHR 0xA7]
                @ [CHR 0xC3, CHR 0xA3] @ ''o mais detalhada.''))"

text \<open>
  A call \<open>getPredictionMessage(prediction, t)\<close>: the function declares one parameter, and
  JavaScript drops an argument that no parameter takes.
\<close>

definition getPredictionMessage_with ::
  "(rat \<Rightarrow> string) \<Rightarrow> PredictionResult \<Rightarrow> (string \<Rightarrow> string) option \<Rightarrow> string" where
  "getPredictionMessage_with big p t = getPredictionMessage big p"

section \<open>What the statements below speak of\<close>

text \<open>
  The interface \<open>PredictionResult\<close> read as a shape of a parsed value: the four
  properties with their declared types. TypeScript checks it when compiling only.
\<close>

definition declared_PredictionResult :: "json_value \<Rightarrow> bool" where
  "declared_PredictionResult v =
     (case v of
        JObj kvs \<Rightarrow>
          (case map_of kvs ''prediction'' of
             Some (JStr p) \<Rightarrow> p = ''normal'' \<or> p = ''catarata'' | _ \<Rightarrow> False)
          \<and> (case map_of kvs ''confidence'' of Some (JNum c) \<Rightarrow> True | _ \<Rightarrow> False)
          \<and> (case map_of kvs ''class_index'' of Some (JNum i) \<Rightarrow> True | _ \<Rightarrow> False)
          \<and> (case map_of kvs ''message'' of Some (JStr m) \<Rightarrow> True | _ \<Rightarrow> False)
      | _ \<Rightarrow> False)"

text \<open>
  The same shape as the data model of the specification words it: the prediction is
  \<open>normal\<close> or \<open>cataract\<close>, the confidence lies in \<open>[0, 1]\<close>, the class index is whole.
\<close>

definition spec_PredictionResult :: "json_value \<Rightarrow> bool" where
  "spec_PredictionResult v =
     (case v of
        JObj kvs \<Rightarrow>
          (case map_of kvs ''prediction'' of
             Some (JStr p) \<Rightarrow> p = ''normal'' \<or> p = ''cataract'' | _ \<Rightarrow> False)
          \<and> (case map_of kvs ''confidence'' of
                Some (JNum (Fin c)) \<Rightarrow> 0 \<le> c \<and> c \<le> 1 | _ \<Rightarrow> False)
          \<and> (case map_of kvs ''class_index'' of
                Some (JNum (Fin i)) \<Rightarrow> i = of_int \<lfloor>i\<rfloor> | _ \<Rightarrow> False)
          \<and> (case map_of kvs ''message'' of Some (JStr m) \<Rightarrow> True | _ \<Rightarrow> False)
      | _ \<Rightarrow> False)"






section \<open>The health check\<close>

text \<open>
  C4. Whatever the GET does, \<open>checkApiHealth\<close> returns a boolean and throws nothing. The
  boolean is true exactly when the request resolved with a response whose status is a
  success status; when the request is rejected the result is false and the warning is
  logged, after the request, as the last thing done.
\<close>

theorem checkApiHealth_total:
  "\<exists>b. fst (checkApiHealth pf get tr) = Inr b
     \<and> (b \<longleftrightarrow> (\<exists>r. get = Inr r \<and> 200 \<le> status r \<and> status r \<le> 299))
     \<and> (\<forall>e. get = Inl e \<longrightarrow>
           \<not> b \<and> snd (checkApiHealth pf get tr)
                 = tr @ [FetchGet (API_BASE_URL pf @ ''/health''), ConsoleWarnIndisponivel e])"
  by (cases get) (auto simp: checkApiHealth_def ok_def)

theorem checkApiHealth_total_witness:
  "fst (checkApiHealth \<lparr>OS = ''web'', EXPO_PUBLIC_API_URL = None\<rparr>
          (Inl (ErrorObj ''TypeError'' ''Failed to fetch'')) []) = Inr False
   \<and> snd (checkApiHealth \<lparr>OS = ''web'', EXPO_PUBLIC_API_URL = None\<rparr>
          (Inl (ErrorObj ''TypeError'' ''Failed to fetch'')) [])
       = [FetchGet ''https://eyessistant2-backend.onrender.com/health'',
          ConsoleWarnIndisponivel (ErrorObj ''TypeError'' ''Failed to fetch'')]"
  using checkApiHealth_total
    [of "\<lparr>OS = ''web'', EXPO_PUBLIC_API_URL = None\<rparr>"
        "Inl (ErrorObj ''TypeError'' ''Failed to fetch'')" "[]"]
  by (auto simp: API_BASE_URL_def)

section \<open>The image encoder\<close>



section \<open>The prediction request\<close>

lemma predictFromBase64_fst:
  "fst (predictFromBase64 pf x imageUri tr) = fst (predict_try pf x imageUri tr)"
  by (simp add: predictFromBase64_def split: prod.splits sum.splits)

text \<open>Once the image is encoded and the POST has resolved, the response decides.\<close>

lemma predict_try_encoded:
  assumes "fst (imageUriToBase64 pf x imageUri tr) = Inr base64Image"
    and "fetchPredict x = Inr response"
  shows "fst (predict_try pf x imageUri tr) =
     (if \<not> ok response
      then (case json response of
              Inl parse_error \<Rightarrow> Inl parse_error
            | Inr error \<Rightarrow>
                (case getprop error ''detail'' of
                   Inl type_error \<Rightarrow> Inl type_error
                 | Inr detail \<Rightarrow>
                     Inl (ApiErrorObj (status response)
                       (or_else detail (JStr ''Erro desconhecido na API'')))))
      else (case json response of
              Inl parse_error \<Rightarrow> Inl parse_error
            | Inr result \<Rightarrow> Inr result))"
  using assms
  by (cases "imageUriToBase64 pf x imageUri tr")
     (simp add: predict_try_def Let_def split: sum.splits)

text \<open>
  C5. When the image is encoded, the POST resolves with a status from 200 to 299 and the
  body parses, \<open>predictFromBase64\<close> returns the parsed value itself.
\<close>

theorem predictFromBase64_success:
  assumes "fst (imageUriToBase64 pf x imageUri tr) = Inr base64Image"
    and "fetchPredict x = Inr response"
    and "200 \<le> status response" and "status response \<le> 299"
    and "json response = Inr result"
  shows "fst (predictFromBase64 pf x imageUri tr) = Inr result"
  using assms(3-5)
  by (simp add: predictFromBase64_fst predict_try_encoded [OF assms(1,2)] ok_def)

theorem predictFromBase64_success_witness:
  "fst (predictFromBase64 \<lparr>OS = ''ios'', EXPO_PUBLIC_API_URL = None\<rparr>
     \<lparr>readAsStringAsync = Inr ''AAAA'', readWeb = ReaderLoads [],
      fetchPredict = Inr \<lparr>status = 200, json = Inr (JObj
        [(''prediction'', JStr ''normal''), (''confidence'', JNum (Fin (7 / 8))),
         (''class_index'', JNum (Fin 0)), (''message'', JStr ''ok'')])\<rparr>\<rparr>
     ''file:///eye.jpg'' [])
   = Inr (JObj
        [(''prediction'', JStr ''normal''), (''confidence'', JNum (Fin (7 / 8))),
         (''class_index'', JNum (Fin 0)), (''message'', JStr ''ok'')])"
  using predictFromBase64_success
    [where base64Image = "Some ''AAAA''" and tr = "[]" and imageUri = "''file:///eye.jpg''"
       and pf = "\<lparr>OS = ''ios'', EXPO_PUBLIC_API_URL = None\<rparr>"
       and response = "\<lparr>status = 200, json = Inr (JObj
        [(''prediction'', JStr ''normal''), (''confidence'', JNum (Fin (7 / 8))),
         (''class_index'', JNum (Fin 0)), (''message'', JStr ''ok'')])\<rparr>"
       and x = "\<lparr>readAsStringAsync = Inr ''AAAA'', readWeb = ReaderLoads [],
      fetchPredict = Inr \<lparr>status = 200, json = Inr (JObj
        [(''prediction'', JStr ''normal''), (''confidence'', JNum (Fin (7 / 8))),
         (''class_index'', JNum (Fin 0)), (''message'', JStr ''ok'')])\<rparr>\<rparr>"]
  by (simp add: imageUriToBase64_def)

text \<open>
  C1, as the code has it. When the image is encoded, the POST resolves with a status
  outside 200 to 299, and the body parses to a value other than \<open>null\<close>,
  \<open>predictFromBase64\<close> throws \<open>{status, detail}\<close>: the status is the response's; the
  detail is the body's \<open>detail\<close> property when that is truthy (any non-empty text is),
  and \<open>Erro desconhecido na API\<close> otherwise.
\<close>

theorem predictFromBase64_api_error:
  assumes "fst (imageUriToBase64 pf x imageUri tr) = Inr base64Image"
    and "fetchPredict x = Inr response"
    and "\<not> (200 \<le> status response \<and> status response \<le> 299)"
    and "json response = Inr body"
    and "body \<noteq> JNull"
  shows "fst (predictFromBase64 pf x imageUri tr) =
     Inl (ApiErrorObj (status response)
       (case body of
          JObj kvs \<Rightarrow>
            (case map_of kvs ''detail'' of
               Some d \<Rightarrow> if truthy (Some d) then d else JStr ''Erro desconhecido na API''
             | None \<Rightarrow> JStr ''Erro desconhecido na API'')
        | _ \<Rightarrow> JStr ''Erro desconhecido na API''))"
  using assms(3-5)
  by (cases body)
     (simp_all add: predictFromBase64_fst predict_try_encoded [OF assms(1,2)] ok_def
        or_else_def split: option.splits)

theorem predictFromBase64_api_error_witness:
  "fst (predictFromBase64 \<lparr>OS = ''android'', EXPO_PUBLIC_API_URL = None\<rparr>
     \<lparr>readAsStringAsync = Inr ''AAAA'', readWeb = ReaderLoads [],
      fetchPredict = Inr \<lparr>status = 400,
        json = Inr (JObj [(''detail'', JStr ''Imagem invalida'')])\<rparr>\<rparr>
     ''file:///eye.jpg'' [])
   = Inl (ApiErrorObj 400 (JStr ''Imagem invalida''))"
  using predictFromBase64_api_error
    [where base64Image = "Some ''AAAA''" and tr = "[]" and imageUri = "''file:///eye.jpg''"
       and pf = "\<lparr>OS = ''android'', EXPO_PUBLIC_API_URL = None\<rparr>"
       and body = "JObj [(''detail'', JStr ''Imagem invalida'')]"
       and response = "\<lparr>status = 400,
         json = Inr (JObj [(''detail'', JStr ''Imagem invalida'')])\<rparr>"
       and x = "\<lparr>readAsStringAsync = Inr ''AAAA'', readWeb = ReaderLoads [],
         fetchPredict = Inr \<lparr>status = 400,
           json = Inr (JObj [(''detail'', JStr ''Imagem invalida'')])\<rparr>\<rparr>"]
  by (simp add: imageUriToBase64_def)

text \<open>
  C1 as stated fails: a 502 whose body is a gateway's HTML page. \<open>response.json()\<close>
  rejects, and what \<open>predictFromBase64\<close> throws is that \<open>SyntaxError\<close>, with no status
  and no detail.
\<close>

theorem predictFromBase64_api_error_counterexample:
  "fst (predictFromBase64 \<lparr>OS = ''android'', EXPO_PUBLIC_API_URL = None\<rparr>
     \<lparr>readAsStringAsync = Inr ''AAAA'', readWeb = ReaderLoads [],
      fetchPredict = Inr \<lparr>status = 502,
        json = Inl (ErrorObj ''SyntaxError'' ''Unexpected token < in JSON at position 0'')\<rparr>\<rparr>
     ''file:///eye.jpg'' [])
   = Inl (ErrorObj ''SyntaxError'' ''Unexpected token < in JSON at position 0'')"
  by (simp add: predictFromBase64_def predict_try_def imageUriToBase64_def ok_def)

text \<open>
  C10. When the status is outside 200 to 299 and \<open>response.json()\<close> rejects with an
  \<open>Error\<close> (the body is not JSON), \<open>predictFromBase64\<close> throws that very error: it is no
  \<open>{status, detail}\<close> object, whatever the status was.
\<close>

theorem predictFromBase64_parse_failure:
  assumes "fst (imageUriToBase64 pf x imageUri tr) = Inr base64Image"
    and "fetchPredict x = Inr response"
    and "\<not> (200 \<le> status response \<and> status response \<le> 299)"
    and "json response = Inl (ErrorObj name msg)"
  shows "fst (predictFromBase64 pf x imageUri tr) = Inl (ErrorObj name msg)
     \<and> (\<forall>s d. fst (predictFromBase64 pf x imageUri tr) \<noteq> Inl (ApiErrorObj s d))"
  using assms(3,4)
  by (simp add: predictFromBase64_fst predict_try_encoded [OF assms(1,2)] ok_def)

theorem predictFromBase64_parse_failure_witness:
  "fst (predictFromBase64 \<lparr>OS = ''ios'', EXPO_PUBLIC_API_URL = None\<rparr>
     \<lparr>readAsStringAsync = Inr ''AAAA'', readWeb = ReaderLoads [],
      fetchPredict = Inr \<lparr>status = 404,
        json = Inl (ErrorObj ''SyntaxError'' ''Unexpected token N in JSON at position 0'')\<rparr>\<rparr>
     ''file:///eye.jpg'' [])
   = Inl (ErrorObj ''SyntaxError'' ''Unexpected token N in JSON at position 0'')"
  using predictFromBase64_parse_failure
    [where base64Image = "Some ''AAAA''" and tr = "[]" and imageUri = "''file:///eye.jpg''"
       and pf = "\<lparr>OS = ''ios'', EXPO_PUBLIC_API_URL = None\<rparr>"
       and name = "''SyntaxError''"
       and msg = "''Unexpected token N in JSON at position 0''"
       and response = "\<lparr>status = 404,
         json = Inl (ErrorObj ''SyntaxError'' ''Unexpected token N in JSON at position 0'')\<rparr>"
       and x = "\<lparr>readAsStringAsync = Inr ''AAAA'', readWeb = ReaderLoads [],
         fetchPredict = Inr \<lparr>status = 404,
           json = Inl (ErrorObj ''SyntaxError''
             ''Unexpected token N in JSON at position 0'')\<rparr>\<rparr>"]
  by (simp add: imageUriToBase64_def)

section \<open>The shape of a consumed result\<close>

text \<open>
  C6, as the code has it. A result that \<open>predictFromBase64\<close> hands to the client is the
  value parsed from the body of a response with a status from 200 to 299, nothing being
  checked on the way. The shape is declared only: a value of the declared shape has a
  prediction that is \<open>normal\<close> or \<open>catarata\<close>, a number for the confidence and for the
  class index, and a text for the message, and reading those properties throws nothing.
\<close>

theorem consumed_result_is_response_body:
  "(fst (predictFromBase64 pf x imageUri tr) = Inr v \<longrightarrow>
      (\<exists>response. fetchPredict x = Inr response
         \<and> 200 \<le> status response \<and> status response \<le> 299 \<and> json response = Inr v))
   \<and> (declared_PredictionResult v \<longrightarrow>
      (\<exists>p c i m. getprop v ''prediction'' = Inr (Some (JStr p))
         \<and> (p = ''normal'' \<or> p = ''catarata'')
         \<and> getprop v ''confidence'' = Inr (Some (JNum c))
         \<and> getprop v ''class_index'' = Inr (Some (JNum i))
         \<and> getprop v ''message'' = Inr (Some (JStr m))))"
proof (intro conjI impI)
  assume "fst (predictFromBase64 pf x imageUri tr) = Inr v"
  then show "\<exists>response. fetchPredict x = Inr response
      \<and> 200 \<le> status response \<and> status response \<le> 299 \<and> json response = Inr v"
    by (auto simp: predictFromBase64_def predict_try_def Let_def ok_def
        split: prod.splits sum.splits if_splits)
next
  assume "declared_PredictionResult v"
  then show "\<exists>p c i m. getprop v ''prediction'' = Inr (Some (JStr p))
      \<and> (p = ''normal'' \<or> p = ''catarata'')
      \<and> getprop v ''confidence'' = Inr (Some (JNum c))
      \<and> getprop v ''class_index'' = Inr (Some (JNum i))
      \<and> getprop v ''message'' = Inr (Some (JStr m))"
    by (cases v)
       (auto simp: declared_PredictionResult_def split: option.splits json_value.splits)
qed

theorem consumed_result_is_response_body_witness:
  "fst (predictFromBase64 \<lparr>OS = ''ios'', EXPO_PUBLIC_API_URL = None\<rparr>
     \<lparr>readAsStringAsync = Inr ''AAAA'', readWeb = ReaderLoads [],
      fetchPredict = Inr \<lparr>status = 201, json = Inr (JObj
        [(''prediction'', JStr ''normal''), (''confidence'', JNum (Fin (1 / 4))),
         (''class_index'', JNum (Fin 0)), (''message'', JStr ''Olho normal'')])\<rparr>\<rparr>
     ''file:///eye.jpg'' [])
    = Inr (JObj
        [(''prediction'', JStr ''normal''), (''confidence'', JNum (Fin (1 / 4))),
         (''class_index'', JNum (Fin 0)), (''message'', JStr ''Olho normal'')])
   \<and> declared_PredictionResult (JObj
        [(''prediction'', JStr ''normal''), (''confidence'', JNum (Fin (1 / 4))),
         (''class_index'', JNum (Fin 0)), (''message'', JStr ''Olho normal'')])
   \<and> (\<exists>response.
        fetchPredict \<lparr>readAsStringAsync = Inr ''AAAA'', readWeb = ReaderLoads [],
          fetchPredict = Inr \<lparr>status = 201, json = Inr (JObj
            [(''prediction'', JStr ''normal''), (''confidence'', JNum (Fin (1 / 4))),
             (''class_index'', JNum (Fin 0)), (''message'', JStr ''Olho normal'')])\<rparr>\<rparr>
          = Inr response
        \<and> 200 \<le> status response \<and> status response \<le> 299)
   \<and> (\<exists>p. getprop (JObj
        [(''prediction'', JStr ''normal''), (''confidence'', JNum (Fin (1 / 4))),
         (''class_index'', JNum (Fin 0)), (''message'', JStr ''Olho normal'')])
        ''prediction'' = Inr (Some (JStr p)) \<and> (p = ''normal'' \<or> p = ''catarata''))"
proof -
  let ?v = "JObj
        [(''prediction'', JStr ''normal''), (''confidence'', JNum (Fin (1 / 4))),
         (''class_index'', JNum (Fin 0)), (''message'', JStr ''Olho normal'')]"
  let ?x = "\<lparr>readAsStringAsync = Inr ''AAAA'', readWeb = ReaderLoads [],
      fetchPredict = Inr \<lparr>status = 201, json = Inr ?v\<rparr>\<rparr>"
  let ?pf = "\<lparr>OS = ''ios'', EXPO_PUBLIC_API_URL = None\<rparr>"
  have r: "fst (predictFromBase64 ?pf ?x ''file:///eye.jpg'' []) = Inr ?v"
    by (simp add: predictFromBase64_def predict_try_def imageUriToBase64_def ok_def)
  have d: "declared_PredictionResult ?v"
    by (simp add: declared_PredictionResult_def)
  note t = consumed_result_is_response_body [of ?pf ?x "''file:///eye.jpg''" "[]" ?v]
  have "\<exists>response. fetchPredict ?x = Inr response
      \<and> 200 \<le> status response \<and> status response \<le> 299"
    using t r by blast
  moreover have "\<exists>p. getprop ?v ''prediction'' = Inr (Some (JStr p))
      \<and> (p = ''normal'' \<or> p = ''catarata'')"
    using t d by blast
  ultimately show ?thesis using r d by blast
qed

text \<open>
  C6 as stated fails. A body of the declared shape, with the prediction \<open>catarata\<close> that
  the interface names, is consumed and is not of the shape the claim gives; and a body
  whose confidence is 3/2 and whose class index is 1/2 is consumed as well.
\<close>

theorem consumed_result_is_response_body_counterexample:
  "declared_PredictionResult (JObj
        [(''prediction'', JStr ''catarata''), (''confidence'', JNum (Fin (7 / 8))),
         (''class_index'', JNum (Fin 1)), (''message'', JStr ''Catarata detectada'')])
   \<and> fst (predictFromBase64 \<lparr>OS = ''ios'', EXPO_PUBLIC_API_URL = None\<rparr>
     \<lparr>readAsStringAsync = Inr ''AAAA'', readWeb = ReaderLoads [],
      fetchPredict = Inr \<lparr>status = 200, json = Inr (JObj
        [(''prediction'', JStr ''catarata''), (''confidence'', JNum (Fin (7 / 8))),
         (''class_index'', JNum (Fin 1)), (''message'', JStr ''Catarata detectada'')])\<rparr>\<rparr>
     ''file:///eye.jpg'' [])
    = Inr (JObj
        [(''prediction'', JStr ''catarata''), (''confidence'', JNum (Fin (7 / 8))),
         (''class_index'', JNum (Fin 1)), (''message'', JStr ''Catarata detectada'')])
   \<and> \<not> spec_PredictionResult (JObj
        [(''prediction'', JStr ''catarata''), (''confidence'', JNum (Fin (7 / 8))),
         (''class_index'', JNum (Fin 1)), (''message'', JStr ''Catarata detectada'')])
   \<and> fst (predictFromBase64 \<lparr>OS = ''ios'', EXPO_PUBLIC_API_URL = None\<rparr>
     \<lparr>readAsStringAsync = Inr ''AAAA'', readWeb = ReaderLoads [],
      fetchPredict = Inr \<lparr>status = 200, json = Inr (JObj
        [(''prediction'', JStr ''normal''), (''confidence'', JNum (Fin (3 / 2))),
         (''class_index'', JNum (Fin (1 / 2))), (''message'', JStr ''ok'')])\<rparr>\<rparr>
     ''file:///eye.jpg'' [])
    = Inr (JObj
        [(''prediction'', JStr ''normal''), (''confidence'', JNum (Fin (3 / 2))),
         (''class_index'', JNum (Fin (1 / 2))), (''message'', JStr ''ok'')])
   \<and> \<not> spec_PredictionResult (JObj
        [(''prediction'', JStr ''normal''), (''confidence'', JNum (Fin (3 / 2))),
         (''class_index'', JNum (Fin (1 / 2))), (''message'', JStr ''ok'')])"
  by (simp add: declared_PredictionResult_def spec_PredictionResult_def
      predictFromBase64_def predict_try_def imageUriToBase64_def ok_def)

section \<open>The retrying predictor\<close>






















section \<open>Formatting the confidence\<close>









text \<open>The product of 7/8 and 100 is 175/2, a binary64 value, which \<open>toFixed(1)\<close> writes
  as 87.5.\<close>

lemma round64_seven_eighths: "round64 (175 / 2) = Fin (175 / 2)"
  by code_simp

lemma toFixed_eighty_seven_and_a_half: "toFixed (\<lambda>q. []) (Fin (175 / 2)) 1 = ''87.5''"
  by code_simp

lemma message_catarata_seven_eighths:
  "getPredictionMessage (\<lambda>q. []) \<lparr>prediction = ''catarata'', confidence = Fin (7 / 8),
        class_index = Fin 1, message = ''Catarata detectada''\<rparr> =
       [CHR 0xE2, CHR 0x9A, CHR 0xA0, CHR 0xEF, CHR 0xB8, CHR 0x8F] @ '' Poss''
         @ [CHR 0xC3, CHR 0xAD] @ ''vel sinal de catarata detectado'' @ [CHR 0x0A]
         @ ''Confid'' @ [CHR 0xC3, CHR 0xAA] @ ''ncia: 87.5%''"
  unfolding getPredictionMessage_def
  by (simp add: round64_seven_eighths toFixed_eighty_seven_and_a_half [unfolded One_nat_def])





section \<open>The translator\<close>

text \<open>
  C7, as the code has it. Both helpers are functions of their arguments alone. Only
  \<open>getRecommendation\<close> takes a translator: given one, it returns what the translator
  gives for the key \<open>analise_recomendacao_normal\<close> when the prediction is \<open>normal\<close> and
  for \<open>analise_recomendacao_urgente\<close> otherwise; given none, its Portuguese text.
  \<open>getPredictionMessage\<close> declares no translator: called with one or without, it returns
  its Portuguese text around the formatted confidence.
\<close>

theorem helpers_translation:
  "getRecommendation p (Some t) =
      t (if prediction p = ''normal'' then ''analise_recomendacao_normal''
         else ''analise_recomendacao_urgente'')
   \<and> getRecommendation p None =
      (if prediction p = ''normal''
       then ''Continue monitorando regularmente seus olhos com exames peri''
            @ [CHR 0xC3, CHR 0xB3] @ ''dicos.''
       else ''Recomendamos que voc'' @ [CHR 0xC3, CHR 0xAA]
            @ '' consulte um oftalmologista para uma avalia'' @ [CHR 0xC3, CHR 0xA7]
            @ [CHR 0xC3, CHR 0xA3] @ ''o mais detalhada.'')
   \<and> getPredictionMessage_with big p t' = getPredictionMessage_with big p None
   \<and> (\<exists>conf. getPredictionMessage_with big p t' =
        (if prediction p = ''normal''
         then [CHR 0xE2, CHR 0x9C, CHR 0x85] @ '' Nenhum sinal de catarata detectado''
              @ [CHR 0x0A] @ conf @ ''% de confian'' @ [CHR 0xC3, CHR 0xA7] @ ''a''
         else [CHR 0xE2, CHR 0x9A, CHR 0xA0, CHR 0xEF, CHR 0xB8, CHR 0x8F] @ '' Poss''
              @ [CHR 0xC3, CHR 0xAD] @ ''vel sinal de catarata detectado'' @ [CHR 0x0A]
              @ ''Confid'' @ [CHR 0xC3, CHR 0xAA] @ ''ncia: '' @ conf @ ''%''))"
  by (auto simp: getRecommendation_def getPredictionMessage_with_def
      getPredictionMessage_def Let_def)

theorem helpers_translation_witness:
  "getRecommendation \<lparr>prediction = ''catarata'', confidence = Fin (7 / 8),
        class_index = Fin 1, message = ''Catarata detectada''\<rparr>
      (Some (\<lambda>key. ''en:'' @ key)) = ''en:analise_recomendacao_urgente''
   \<and> getRecommendation \<lparr>prediction = ''normal'', confidence = Fin (7 / 8),
        class_index = Fin 0, message = ''Olho normal''\<rparr> None =
      ''Continue monitorando regularmente seus olhos com exames peri''
            @ [CHR 0xC3, CHR 0xB3] @ ''dicos.''"
  using helpers_translation
    [of "\<lparr>prediction = ''catarata'', confidence = Fin (7 / 8),
        class_index = Fin 1, message = ''Catarata detectada''\<rparr>" "\<lambda>key. ''en:'' @ key"]
    helpers_translation
    [of "\<lparr>prediction = ''normal'', confidence = Fin (7 / 8),
        class_index = Fin 0, message = ''Olho normal''\<rparr>"]
  by simp

text \<open>
  C7 as stated fails: \<open>getPredictionMessage\<close> called with a translator that answers
  every key with \<open>translated\<close> still returns its Portuguese text; nothing of the
  translator is in it.
\<close>

theorem helpers_translation_counterexample:
  "getPredictionMessage_with (\<lambda>q. []) \<lparr>prediction = ''catarata'', confidence = Fin (7 / 8),
        class_index = Fin 1, message = ''Catarata detectada''\<rparr>
      (Some (\<lambda>key. ''translated'')) =
       [CHR 0xE2, CHR 0x9A, CHR 0xA0, CHR 0xEF, CHR 0xB8, CHR 0x8F] @ '' Poss''
         @ [CHR 0xC3, CHR 0xAD] @ ''vel sinal de catarata detectado'' @ [CHR 0x0A]
         @ ''Confid'' @ [CHR 0xC3, CHR 0xAA] @ ''ncia: 87.5%''"
  by (simp only: getPredictionMessage_with_def message_catarata_seven_eighths)

end
